theory Spec2Isabelle
  imports Main
begin

section \<open>Fleet enrollment command (x-pack/agent/pkg/fleetapi/enroll\_cmd.go)\<close>

text \<open>
  A shallow embedding of the enrollment command of the agent: the wire codec of
  \<open>EnrollType\<close>, the validation of requests and responses, and \<open>EnrollCmd.Execute\<close>.
  Go strings and byte slices are \<open>string\<close> (a list of bytes). A Go \<open>error\<close> result is an
  \<open>error option\<close> (\<open>None\<close> is \<open>nil\<close>); a pointer result that may be \<open>nil\<close> is an option too.
\<close>

subsection \<open>Errors\<close>

text \<open>
  The error values the file builds: \<open>errors.New\<close>, \<open>fmt.Errorf\<close> (the formatted message),
  the \<open>*multierror.Error\<close> of go-multierror (its \<open>Errors\<close> slice), \<open>errors.Wrap\<close> (cause and
  message) and the \<open>*json.MarshalerError\<close> around a failing \<open>MarshalJSON\<close>. \<open>Foreign\<close> is an
  error made by a collaborator (transport, error extraction, the JSON library).
\<close>

datatype 'x error =
    New string
  | Errorf string
  | MultiError "'x error list"
  | Wrap "'x error" string
  | MarshalerError "'x error"
  | Foreign 'x

text \<open>
  \<open>multierror.Append(err, e)\<close> with one error to add: a \<open>nil\<close> accumulator starts a new
  list, a \<open>*multierror.Error\<close> accumulator is extended, any other error becomes the first
  entry; an added \<open>*multierror.Error\<close> is flattened into its entries.
\<close>

fun flatten :: "'x error \<Rightarrow> 'x error list" where
  "flatten (MultiError es) = es"
| "flatten e = [e]"

fun multierror_Append :: "'x error option \<Rightarrow> 'x error \<Rightarrow> 'x error" where
  "multierror_Append None e = MultiError (flatten e)"
| "multierror_Append (Some (MultiError es)) e = MultiError (es @ flatten e)"
| "multierror_Append (Some err) e = MultiError (err # flatten e)"

subsection \<open>EnrollType and its wire codec\<close>

type_synonym EnrollType = string

definition PermanentEnroll :: EnrollType where
  "PermanentEnroll = ''PERMANENT''"

text \<open>The table \<open>mapEnrollType\<close>, as the list of its entries; a lookup is \<open>map_of\<close>.\<close>

definition mapEnrollType :: "(string \<times> EnrollType) list" where
  "mapEnrollType = [(''PERMANENT'', PermanentEnroll)]"

text \<open>\<open>init\<close>: the loop that fills \<open>reverseMapEnrollType\<close> from \<open>mapEnrollType\<close>.\<close>

definition reverseMapEnrollType :: "EnrollType \<rightharpoonup> string" where
  "reverseMapEnrollType = fold (\<lambda>(k, v) m. m(v \<mapsto> k)) mapEnrollType Map.empty"

text \<open>
  The slice expression \<open>s[lo:hi]\<close>. Go panics unless \<open>lo \<le> hi \<le> len(s)\<close>; the only
  use, in \<open>UnmarshalJSON\<close>, is guarded by \<open>len(s) > 2\<close>.
\<close>

definition slice :: "string \<Rightarrow> nat \<Rightarrow> nat \<Rightarrow> string" where
  "slice s lo hi = take (hi - lo) (drop lo s)"

text \<open>
  \<open>(p *EnrollType) UnmarshalJSON(b)\<close>: the receiver's value before the call is an
  argument, its value after the call is the first component of the result.
\<close>

definition UnmarshalJSON :: "EnrollType \<Rightarrow> string \<Rightarrow> EnrollType \<times> 'x error option" where
  "UnmarshalJSON p b =
     (let s = b in
      if length s \<le> 2 then (p, Some (New ''invalid enroll type received''))
      else
        let s = slice s 1 (length s - 1) in
        case map_of mapEnrollType s of
          None \<Rightarrow>
            (p, Some (Errorf (''value of '' @ [CHR 0x27] @ s @ [CHR 0x27] @
               '' is an invalid enrollment type, supported type is '' @
               [CHR 0x27] @ ''PERMANENT'' @ [CHR 0x27])))
        | Some v \<Rightarrow> (v, None))"

text \<open>
  \<open>json.Marshal\<close> of a Go string, as the standard library of the code's time encodes it
  (HTML escaping on): a double quote, the bytes, a double quote. A byte below \<open>0x80\<close>
  stands for itself unless it is a control character, \<open>"\<close>, \<open>\\<close>, \<open><\<close>, \<open>>\<close> or \<open>&\<close>;
  \<open>"\<close> and \<open>\\<close> get a backslash, newline, carriage return and tab their short escapes,
  the others \<open>\u00XX\<close>. Bytes from \<open>0x80\<close> on are copied, which is what the library does
  with well-formed UTF-8 other than U+2028 and U+2029. It never fails on a string.
\<close>

definition dquote :: char where
  "dquote = CHR 0x22"

definition backslash :: char where
  "backslash = CHR 0x5C"

definition hex :: string where
  "hex = ''0123456789abcdef''"

definition htmlSafeSet :: "char \<Rightarrow> bool" where
  "htmlSafeSet c =
     (32 \<le> (of_char c :: nat) \<and> (of_char c :: nat) < 128 \<and>
      c \<noteq> dquote \<and> c \<noteq> backslash \<and> c \<noteq> CHR ''<'' \<and> c \<noteq> CHR ''>'' \<and> c \<noteq> CHR ''&'')"

definition encodeByte :: "char \<Rightarrow> string" where
  "encodeByte c =
     (if 128 \<le> (of_char c :: nat) \<or> htmlSafeSet c then [c]
      else if c = backslash \<or> c = dquote then [backslash, c]
      else if c = CHR 0x0A then [backslash, CHR ''n'']
      else if c = CHR 0x0D then [backslash, CHR ''r'']
      else if c = CHR 0x09 then [backslash, CHR ''t'']
      else [backslash, CHR ''u'', CHR ''0'', CHR ''0'',
            hex ! ((of_char c :: nat) div 16), hex ! ((of_char c :: nat) mod 16)])"

definition json_Marshal_string :: "string \<Rightarrow> string" where
  "json_Marshal_string s = [dquote] @ concat (map encodeByte s) @ [dquote]"

text \<open>\<open>(p EnrollType) MarshalJSON()\<close>: the bytes, or the error.\<close>

definition MarshalJSON :: "EnrollType \<Rightarrow> 'x error + string" where
  "MarshalJSON p =
     (case reverseMapEnrollType p of
        None \<Rightarrow> Inl (New ''cannot serialize unknown type'')
      | Some v \<Rightarrow> Inr (json_Marshal_string v))"

subsection \<open>Requests and responses\<close>

text \<open>
  \<open>'m\<close> is the type of a \<open>map[string]interface{}\<close>, \<open>'t\<close> of a \<open>time.Time\<close> and \<open>'a\<close> of an
  \<open>interface{}\<close> entry of \<open>Actions\<close>: the file never looks inside them.
\<close>

record 'm Metadata =
  Local :: 'm
  UserProvided :: 'm

record 'm EnrollRequest =
  EnrollmentToken :: string
  Type :: EnrollType
  SharedID :: string
  Metadata :: "'m Metadata"

record ('m, 't, 'a) EnrollItemResponse =
  ID :: string
  Active :: bool
  PolicyID :: string
  Type :: EnrollType
  EnrolledAt :: 't
  UserProvidedMetadata :: 'm
  LocalMetadata :: 'm
  Actions :: "'a list"
  AccessToken :: string

record ('m, 't, 'a) EnrollResponse =
  Action :: string
  Success :: bool
  Item :: "('m, 't, 'a) EnrollItemResponse"

text \<open>\<open>(e *EnrollRequest) Validate()\<close>.\<close>

definition EnrollRequest_Validate :: "'m EnrollRequest \<Rightarrow> 'x error option" where
  "EnrollRequest_Validate e =
     (let err = None;
          err = (if length (EnrollmentToken e) = 0
                 then Some (multierror_Append err (New ''missing enrollment token''))
                 else err);
          err = (if length (EnrollRequest.Type e) = 0
                 then Some (multierror_Append err (New ''missing enrollment type''))
                 else err)
      in err)"

text \<open>\<open>(e *EnrollResponse) Validate()\<close>.\<close>

definition EnrollResponse_Validate :: "('m, 't, 'a) EnrollResponse \<Rightarrow> 'x error option" where
  "EnrollResponse_Validate e =
     (let err = None;
          err = (if length (ID (Item e)) = 0
                 then Some (multierror_Append err (New ''missing ID''))
                 else err);
          err = (if length (EnrollItemResponse.Type (Item e)) = 0
                 then Some (multierror_Append err (New ''missing enrollment type''))
                 else err);
          err = (if length (AccessToken (Item e)) = 0
                 then Some (multierror_Append err (New ''access token is missing''))
                 else err)
      in err)"

subsection \<open>Serialization of the request\<close>

text \<open>
  \<open>json.Marshal(r)\<close> on an \<open>*EnrollRequest\<close>, following the struct tags: \<open>EnrollmentToken\<close> is
  tagged \<open>json:"-"\<close> and is skipped; \<open>type\<close> is written by \<open>EnrollType.MarshalJSON\<close>, whose
  error the library wraps in a \<open>MarshalerError\<close> (its output, a JSON string already
  escaped, is copied as it is); \<open>sharedId\<close> is left out when empty; \<open>metadata\<close> holds the
  two maps. \<open>encMap\<close> is the library's encoding of a \<open>map[string]interface{}\<close>, which can
  fail on a value JSON cannot express. The first failure ends the encoding.
\<close>

definition json_key :: "string \<Rightarrow> string" where
  "json_key k = [dquote] @ k @ [dquote] @ '':''"

definition json_Marshal_Metadata ::
    "('m \<Rightarrow> 'x error + string) \<Rightarrow> 'm Metadata \<Rightarrow> 'x error + string" where
  "json_Marshal_Metadata encMap m =
     (case encMap (Local m) of
        Inl err \<Rightarrow> Inl err
      | Inr l \<Rightarrow>
          (case encMap (UserProvided m) of
             Inl err \<Rightarrow> Inl err
           | Inr u \<Rightarrow>
               Inr (''{'' @ json_key ''local'' @ l @ '','' @ json_key ''userProvided'' @ u @ ''}'')))"

definition json_Marshal_EnrollRequest ::
    "('m \<Rightarrow> 'x error + string) \<Rightarrow> 'm EnrollRequest \<Rightarrow> 'x error + string" where
  "json_Marshal_EnrollRequest encMap r =
     (case MarshalJSON (EnrollRequest.Type r) of
        Inl err \<Rightarrow> Inl (MarshalerError err)
      | Inr t \<Rightarrow>
          (case json_Marshal_Metadata encMap (Metadata r) of
             Inl err \<Rightarrow> Inl err
           | Inr md \<Rightarrow>
               Inr (''{'' @ json_key ''type'' @ t @
                    (if length (SharedID r) = 0 then []
                     else '','' @ json_key ''sharedId'' @ json_Marshal_string (SharedID r)) @
                    '','' @ json_key ''metadata'' @ md @ ''}'')))"

subsection \<open>The command\<close>

text \<open>
  The transport: \<open>clienter.Send(method, path, params, headers, body)\<close> returns an
  \<open>*http.Response\<close> and an \<open>error\<close>, either of which may be \<open>nil\<close>. Of the response the
  command reads \<open>StatusCode\<close> and \<open>Body\<close>; \<open>'b\<close> is the type of a body. The \<open>params\<close>
  argument is \<open>None\<close> for \<open>nil\<close>; the \<open>body\<close> argument is the content of the buffer.
\<close>

record SendArgs =
  httpMethod :: string
  path :: string
  params :: "(string \<rightharpoonup> string list) option"
  headers :: "string \<rightharpoonup> string list"
  body :: string

record 'b Response =
  StatusCode :: int
  Body :: 'b

record ('b, 'x) clienter =
  Send :: "SendArgs \<Rightarrow> 'b Response option \<times> 'x error option"

record ('b, 'x) EnrollCmd =
  client :: "('b, 'x) clienter"

definition NewEnrollCmd :: "('b, 'x) clienter \<Rightarrow> ('b, 'x) EnrollCmd" where
  "NewEnrollCmd c = \<lparr>client = c\<rparr>"

definition http_StatusOK :: int where
  "http_StatusOK = 200"

text \<open>
  What \<open>Execute\<close> does to the outside, in order: a call of \<open>Send\<close> with its arguments, and
  the deferred \<open>Close\<close> of a response body.
\<close>

datatype 'b event = Sent SendArgs | Closed 'b

text \<open>
  \<open>Execute\<close> returns its pair of results, or panics (a \<open>nil\<close> response with a \<open>nil\<close> error
  is dereferenced by \<open>resp.Body\<close>).
\<close>

datatype ('r, 'x) result = Return "'r option" "'x error option" | Panic

text \<open>
  \<open>(e *EnrollCmd) Execute(r)\<close>. Besides the command and the request it takes the
  collaborators the file calls: \<open>extract\<close>, the package's error extraction from a
  response body (it returns an \<open>error\<close>), \<open>decode\<close>, the library's
  \<open>json.NewDecoder(body).Decode\<close> into a fresh \<open>EnrollResponse\<close>, and \<open>encMap\<close> (see above).
  The result comes with the events of the call.
\<close>

definition Execute ::
    "('b \<Rightarrow> 'x error option) \<Rightarrow> ('b \<Rightarrow> 'x error + ('m, 't, 'a) EnrollResponse) \<Rightarrow>
     ('m \<Rightarrow> 'x error + string) \<Rightarrow> ('b, 'x) EnrollCmd \<Rightarrow> 'm EnrollRequest \<Rightarrow>
     (('m, 't, 'a) EnrollResponse, 'x) result \<times> 'b event list" where
  "Execute extract decode encMap e r =
     (let p = ''/api/fleet/agents/enroll'';
          key = ''kbn-fleet-enrollment-token''
      in
      case EnrollRequest_Validate r of
        Some err \<Rightarrow> (Return None (Some err), [])
      | None \<Rightarrow>
          let headers = [key \<mapsto> [EnrollmentToken r]] in
          (case json_Marshal_EnrollRequest encMap r of
             Inl err \<Rightarrow>
               (Return None (Some (Wrap err ''fail to encode the enrollment request'')), [])
           | Inr b \<Rightarrow>
               let call = \<lparr>httpMethod = ''POST'', path = p, params = None,
                            headers = headers, body = b\<rparr> in
               (case Send (client e) call of
                  (_, Some err) \<Rightarrow> (Return None (Some err), [Sent call])
                | (None, None) \<Rightarrow> (Panic, [Sent call])
                | (Some resp, None) \<Rightarrow>
                    if StatusCode resp \<noteq> http_StatusOK
                    then (Return None (extract (Body resp)), [Sent call, Closed (Body resp)])
                    else
                      (case decode (Body resp) of
                         Inl err \<Rightarrow>
                           (Return None (Some (Wrap err ''fail to decode enrollment response'')),
                            [Sent call, Closed (Body resp)])
                       | Inr enrollResponse \<Rightarrow>
                           (case EnrollResponse_Validate enrollResponse of
                              Some err \<Rightarrow>
                                (Return None (Some err), [Sent call, Closed (Body resp)])
                            | None \<Rightarrow>
                                (Return (Some enrollResponse) None,
                                 [Sent call, Closed (Body resp)]))))))"

section \<open>Properties\<close>

subsection \<open>Facts about the tables and the codec\<close>

lemma slice_inner: "slice s (Suc 0) (length s - Suc 0) = butlast (tl s)"
  by (simp add: slice_def butlast_conv_take drop_Suc)

lemma map_of_mapEnrollType:
  "map_of mapEnrollType s = (if s = ''PERMANENT'' then Some PermanentEnroll else None)"
  by (simp add: mapEnrollType_def)

lemma dom_mapEnrollType: "dom (map_of mapEnrollType) = {''PERMANENT''}"
  by (auto simp: map_of_mapEnrollType dom_def)

lemma ran_mapEnrollType: "ran (map_of mapEnrollType) = {PermanentEnroll}"
  by (auto simp: map_of_mapEnrollType ran_def)

lemma reverseMapEnrollType_eq:
  "reverseMapEnrollType p = (if p = PermanentEnroll then Some ''PERMANENT'' else None)"
  by (simp add: reverseMapEnrollType_def mapEnrollType_def)

lemma json_Marshal_string_PERMANENT:
  "json_Marshal_string ''PERMANENT'' = [dquote] @ ''PERMANENT'' @ [dquote]"
  by (simp add: json_Marshal_string_def encodeByte_def htmlSafeSet_def dquote_def backslash_def)

lemma UnmarshalJSON_eq:
  "UnmarshalJSON p b =
     (if length b \<le> 2 then (p, Some (New ''invalid enroll type received''))
      else if butlast (tl b) = ''PERMANENT'' then (PermanentEnroll, None)
      else (p, Some (Errorf (''value of '' @ [CHR 0x27] @ butlast (tl b) @ [CHR 0x27] @
               '' is an invalid enrollment type, supported type is '' @
               [CHR 0x27] @ ''PERMANENT'' @ [CHR 0x27]))))"
  by (simp add: UnmarshalJSON_def Let_def slice_inner map_of_mapEnrollType)

lemma short_not_PERMANENT: "length b \<le> 2 \<Longrightarrow> butlast (tl b) \<noteq> ''PERMANENT''"
proof
  assume a: "length b \<le> 2" and "butlast (tl b) = ''PERMANENT''"
  then have "length (butlast (tl b)) = 9" by simp
  with a show False by simp
qed

subsection \<open>The codec of EnrollType\<close>

text \<open>
  C4. Every value of the known set (the values of \<open>mapEnrollType\<close>, that is \<open>PERMANENT\<close>)
  round-trips: \<open>MarshalJSON\<close> succeeds on it, and \<open>UnmarshalJSON\<close> on the bytes produced
  succeeds and sets the receiver, whatever it held, to the same value.
\<close>

theorem EnrollType_round_trip:
  assumes "v \<in> ran (map_of mapEnrollType)"
  shows "\<exists>bs. (MarshalJSON v :: 'x error + string) = Inr bs \<and>
              UnmarshalJSON p bs = (v, None :: 'y error option)"
proof -
  from assms have v: "v = PermanentEnroll" by (simp add: ran_mapEnrollType)
  have m: "(MarshalJSON v :: 'x error + string) = Inr ([dquote] @ ''PERMANENT'' @ [dquote])"
    by (simp add: v MarshalJSON_def reverseMapEnrollType_eq json_Marshal_string_PERMANENT)
  have "UnmarshalJSON p ([dquote] @ ''PERMANENT'' @ [dquote]) = (v, None :: 'y error option)"
    by (simp add: v UnmarshalJSON_eq)
  with m show ?thesis by blast
qed

theorem EnrollType_round_trip_witness:
  "PermanentEnroll \<in> ran (map_of mapEnrollType) \<and>
   (\<exists>bs. (MarshalJSON PermanentEnroll :: unit error + string) = Inr bs \<and>
         UnmarshalJSON ''old'' bs = (PermanentEnroll, None :: unit error option))"
proof -
  have h: "PermanentEnroll \<in> ran (map_of mapEnrollType)"
    by (simp add: ran_mapEnrollType)
  from h EnrollType_round_trip [OF h, of "''old''", where 'x = unit and 'y = unit]
  show ?thesis by simp
qed

text \<open>
  C5. \<open>UnmarshalJSON\<close> returns an error on every input of at most two bytes and on every
  input whose token (the input without its first and its last byte) is not a key of
  \<open>mapEnrollType\<close>; it returns no error exactly when the token is a key of the table.
\<close>

theorem UnmarshalJSON_succeeds_iff_known:
  "(length b \<le> 2 \<longrightarrow> snd (UnmarshalJSON p b :: EnrollType \<times> 'x error option) \<noteq> None) \<and>
   (butlast (tl b) \<notin> dom (map_of mapEnrollType) \<longrightarrow>
      snd (UnmarshalJSON p b :: EnrollType \<times> 'x error option) \<noteq> None) \<and>
   (snd (UnmarshalJSON p b :: EnrollType \<times> 'x error option) = None \<longleftrightarrow>
      butlast (tl b) \<in> dom (map_of mapEnrollType))"
  using short_not_PERMANENT [of b] by (simp add: UnmarshalJSON_eq dom_mapEnrollType)

theorem UnmarshalJSON_succeeds_iff_known_witness:
  "length ''ab'' \<le> 2 \<and>
   snd (UnmarshalJSON ''old'' ''ab'' :: EnrollType \<times> unit error option) \<noteq> None \<and>
   butlast (tl ''xTEMPORARYx'') \<notin> dom (map_of mapEnrollType) \<and>
   snd (UnmarshalJSON ''old'' ''xTEMPORARYx'' :: EnrollType \<times> unit error option) \<noteq> None \<and>
   butlast (tl ([dquote] @ ''PERMANENT'' @ [dquote])) \<in> dom (map_of mapEnrollType) \<and>
   snd (UnmarshalJSON ''old'' ([dquote] @ ''PERMANENT'' @ [dquote])
          :: EnrollType \<times> unit error option) = None"
  using UnmarshalJSON_succeeds_iff_known [of "''ab''" "''old''", where 'x = unit]
    UnmarshalJSON_succeeds_iff_known [of "''xTEMPORARYx''" "''old''", where 'x = unit]
    UnmarshalJSON_succeeds_iff_known [of "[dquote] @ ''PERMANENT'' @ [dquote]" "''old''",
      where 'x = unit]
  by (simp add: dom_mapEnrollType)

text \<open>
  C6. \<open>MarshalJSON\<close> fails, with the error "cannot serialize unknown type", on every value
  that is not a value of the table, and succeeds on every value of the table; the only
  value of the table is \<open>PermanentEnroll\<close>.
\<close>

theorem MarshalJSON_table:
  "(p \<notin> ran (map_of mapEnrollType) \<longrightarrow>
      (MarshalJSON p :: 'x error + string) = Inl (New ''cannot serialize unknown type'')) \<and>
   (p \<in> ran (map_of mapEnrollType) \<longrightarrow> (\<exists>bs. (MarshalJSON p :: 'x error + string) = Inr bs)) \<and>
   (p \<in> ran (map_of mapEnrollType) \<longleftrightarrow> p = PermanentEnroll)"
  by (simp add: MarshalJSON_def reverseMapEnrollType_eq ran_mapEnrollType)

theorem MarshalJSON_table_witness:
  "''TEMPORARY'' \<notin> ran (map_of mapEnrollType) \<and>
   (MarshalJSON ''TEMPORARY'' :: unit error + string) = Inl (New ''cannot serialize unknown type'') \<and>
   PermanentEnroll \<in> ran (map_of mapEnrollType) \<and>
   (\<exists>bs. (MarshalJSON PermanentEnroll :: unit error + string) = Inr bs)"
  using MarshalJSON_table [of "''TEMPORARY''", where 'x = unit]
    MarshalJSON_table [of PermanentEnroll, where 'x = unit]
  by (simp add: ran_mapEnrollType PermanentEnroll_def)

text \<open>
  C9. \<open>UnmarshalJSON\<close> does not look at the first and the last byte: on every input of at
  least three bytes whose inner part is \<open>PERMANENT\<close> it succeeds and sets the receiver to
  \<open>PermanentEnroll\<close>, also when the delimiters are not quotation marks, as in
  \<open>xPERMANENTx\<close>.
\<close>

theorem UnmarshalJSON_ignores_delimiters:
  assumes "3 \<le> length b" and "butlast (tl b) = ''PERMANENT''"
  shows "UnmarshalJSON p b = (PermanentEnroll, None)"
  using assms by (simp add: UnmarshalJSON_eq)

theorem UnmarshalJSON_ignores_delimiters_witness:
  "3 \<le> length ''xPERMANENTx'' \<and> butlast (tl ''xPERMANENTx'') = ''PERMANENT'' \<and>
   UnmarshalJSON ''old'' ''xPERMANENTx'' = (PermanentEnroll, None :: unit error option)"
  using UnmarshalJSON_ignores_delimiters [of "''xPERMANENTx''" "''old''"] by simp

text \<open>
  C10. A failing \<open>UnmarshalJSON\<close> leaves the receiver as it was: whenever it returns an
  error, the receiver's value after the call is its value before the call.
\<close>

theorem UnmarshalJSON_failure_keeps_receiver:
  assumes "snd (UnmarshalJSON p b :: EnrollType \<times> 'x error option) = Some err"
  shows "fst (UnmarshalJSON p b :: EnrollType \<times> 'x error option) = p"
  using assms by (simp add: UnmarshalJSON_eq split: if_splits)

theorem UnmarshalJSON_failure_keeps_receiver_witness:
  "snd (UnmarshalJSON ''old'' ''ab'' :: EnrollType \<times> unit error option)
     = Some (New ''invalid enroll type received'') \<and>
   fst (UnmarshalJSON ''old'' ''ab'' :: EnrollType \<times> unit error option) = ''old'' \<and>
   snd (UnmarshalJSON ''old'' ''xTEMPORARYx'' :: EnrollType \<times> unit error option) \<noteq> None \<and>
   fst (UnmarshalJSON ''old'' ''xTEMPORARYx'' :: EnrollType \<times> unit error option) = ''old''"
proof -
  have h: "snd (UnmarshalJSON ''old'' ''ab'' :: EnrollType \<times> unit error option)
     = Some (New ''invalid enroll type received'')"
    by (simp add: UnmarshalJSON_def)
  obtain err :: "unit error"
    where k: "snd (UnmarshalJSON ''old'' ''xTEMPORARYx'' :: EnrollType \<times> unit error option)
                = Some err"
    by (simp add: UnmarshalJSON_eq)
  from h k UnmarshalJSON_failure_keeps_receiver [OF h] UnmarshalJSON_failure_keeps_receiver [OF k]
  show ?thesis by simp
qed

subsection \<open>Validation\<close>

lemma EnrollRequest_Validate_eq:
  "EnrollRequest_Validate e =
     (case (if EnrollmentToken e = [] then [New ''missing enrollment token''] else []) @
           (if EnrollRequest.Type e = [] then [New ''missing enrollment type''] else [])
      of [] \<Rightarrow> None | v # vs \<Rightarrow> Some (MultiError (v # vs)))"
  by (simp add: EnrollRequest_Validate_def)

lemma EnrollRequest_Validate_None:
  "(EnrollRequest_Validate r :: 'x error option) = None \<longleftrightarrow>
     EnrollmentToken r \<noteq> [] \<and> EnrollRequest.Type r \<noteq> []"
  by (simp add: EnrollRequest_Validate_eq)

lemma EnrollResponse_Validate_eq:
  "EnrollResponse_Validate e =
     (case (if ID (Item e) = [] then [New ''missing ID''] else []) @
           (if EnrollItemResponse.Type (Item e) = [] then [New ''missing enrollment type''] else []) @
           (if AccessToken (Item e) = [] then [New ''access token is missing''] else [])
      of [] \<Rightarrow> None | v # vs \<Rightarrow> Some (MultiError (v # vs)))"
  by (simp add: EnrollResponse_Validate_def)

text \<open>
  C7. \<open>EnrollRequest.Validate\<close> returns an error when the enrollment token is empty, when
  the type is empty, and when both are empty; in the last case the aggregate holds both
  violations, the token's first. It returns no error when both are non-empty, whatever
  \<open>SharedID\<close> and \<open>Metadata\<close> hold.
\<close>

theorem EnrollRequest_Validate_cases:
  "(EnrollmentToken e = [] \<and> EnrollRequest.Type e \<noteq> [] \<longrightarrow>
      EnrollRequest_Validate e = Some (MultiError [New ''missing enrollment token''])) \<and>
   (EnrollmentToken e \<noteq> [] \<and> EnrollRequest.Type e = [] \<longrightarrow>
      EnrollRequest_Validate e = Some (MultiError [New ''missing enrollment type''])) \<and>
   (EnrollmentToken e = [] \<and> EnrollRequest.Type e = [] \<longrightarrow>
      EnrollRequest_Validate e =
        Some (MultiError [New ''missing enrollment token'', New ''missing enrollment type''])) \<and>
   (EnrollmentToken e \<noteq> [] \<and> EnrollRequest.Type e \<noteq> [] \<longrightarrow>
      EnrollRequest_Validate e = None)"
  by (simp add: EnrollRequest_Validate_eq)

theorem EnrollRequest_Validate_cases_witness:
  "EnrollRequest_Validate
      \<lparr>EnrollmentToken = [], EnrollRequest.Type = ''PERMANENT'', SharedID = [],
       Metadata = \<lparr>Local = (), UserProvided = ()\<rparr>\<rparr>
     = Some (MultiError [New ''missing enrollment token'' :: unit error]) \<and>
   EnrollRequest_Validate
      \<lparr>EnrollmentToken = ''tok123'', EnrollRequest.Type = [], SharedID = [],
       Metadata = \<lparr>Local = (), UserProvided = ()\<rparr>\<rparr>
     = Some (MultiError [New ''missing enrollment type'' :: unit error]) \<and>
   EnrollRequest_Validate
      \<lparr>EnrollmentToken = [], EnrollRequest.Type = [], SharedID = ''shared'',
       Metadata = \<lparr>Local = (), UserProvided = ()\<rparr>\<rparr>
     = Some (MultiError [New ''missing enrollment token'',
                         New ''missing enrollment type'' :: unit error]) \<and>
   EnrollRequest_Validate
      \<lparr>EnrollmentToken = ''tok123'', EnrollRequest.Type = ''PERMANENT'', SharedID = ''shared'',
       Metadata = \<lparr>Local = (), UserProvided = ()\<rparr>\<rparr>
     = (None :: unit error option)"
  using
    EnrollRequest_Validate_cases [where 'b = unit, of
      "\<lparr>EnrollmentToken = [], EnrollRequest.Type = ''PERMANENT'', SharedID = [],
        Metadata = \<lparr>Local = (), UserProvided = ()\<rparr>\<rparr>"]
    EnrollRequest_Validate_cases [where 'b = unit, of
      "\<lparr>EnrollmentToken = ''tok123'', EnrollRequest.Type = [], SharedID = [],
        Metadata = \<lparr>Local = (), UserProvided = ()\<rparr>\<rparr>"]
    EnrollRequest_Validate_cases [where 'b = unit, of
      "\<lparr>EnrollmentToken = [], EnrollRequest.Type = [], SharedID = ''shared'',
        Metadata = \<lparr>Local = (), UserProvided = ()\<rparr>\<rparr>"]
    EnrollRequest_Validate_cases [where 'b = unit, of
      "\<lparr>EnrollmentToken = ''tok123'', EnrollRequest.Type = ''PERMANENT'', SharedID = ''shared'',
        Metadata = \<lparr>Local = (), UserProvided = ()\<rparr>\<rparr>"]
  by simp

text \<open>
  C8. \<open>EnrollResponse.Validate\<close> returns an error whenever the item's identifier is empty,
  whenever the item's type is empty and whenever the access token is empty, each check
  adding its own violation to the aggregate; it returns no error exactly when the three
  fields are non-empty. The aggregate is the list of the violations of the empty fields,
  in the order identifier, type, access token.
\<close>

theorem EnrollResponse_Validate_cases:
  "(ID (Item e) = [] \<longrightarrow>
      (\<exists>es. (EnrollResponse_Validate e :: 'x error option) = Some (MultiError es) \<and>
            New ''missing ID'' \<in> set es)) \<and>
   (EnrollItemResponse.Type (Item e) = [] \<longrightarrow>
      (\<exists>es. (EnrollResponse_Validate e :: 'x error option) = Some (MultiError es) \<and>
            New ''missing enrollment type'' \<in> set es)) \<and>
   (AccessToken (Item e) = [] \<longrightarrow>
      (\<exists>es. (EnrollResponse_Validate e :: 'x error option) = Some (MultiError es) \<and>
            New ''access token is missing'' \<in> set es)) \<and>
   ((EnrollResponse_Validate e :: 'x error option) = None \<longleftrightarrow>
      ID (Item e) \<noteq> [] \<and> EnrollItemResponse.Type (Item e) \<noteq> [] \<and> AccessToken (Item e) \<noteq> []) \<and>
   (EnrollResponse_Validate e :: 'x error option) =
     (case (if ID (Item e) = [] then [New ''missing ID''] else []) @
           (if EnrollItemResponse.Type (Item e) = [] then [New ''missing enrollment type''] else []) @
           (if AccessToken (Item e) = [] then [New ''access token is missing''] else [])
      of [] \<Rightarrow> None | v # vs \<Rightarrow> Some (MultiError (v # vs)))"
  by (simp add: EnrollResponse_Validate_eq)

theorem EnrollResponse_Validate_cases_witness:
  "(EnrollResponse_Validate
      \<lparr>Action = ''created'', Success = True,
       Item = \<lparr>ID = [], Active = True, PolicyID = ''default'', EnrollItemResponse.Type = [],
               EnrolledAt = (), UserProvidedMetadata = (), LocalMetadata = (),
               Actions = [] :: unit list, AccessToken = []\<rparr>\<rparr> :: unit error option)
     = Some (MultiError [New ''missing ID'', New ''missing enrollment type'',
                         New ''access token is missing'']) \<and>
   (EnrollResponse_Validate
      \<lparr>Action = ''created'', Success = True,
       Item = \<lparr>ID = ''a4937110'', Active = True, PolicyID = ''default'',
               EnrollItemResponse.Type = ''PERMANENT'',
               EnrolledAt = (), UserProvidedMetadata = (), LocalMetadata = (),
               Actions = [] :: unit list, AccessToken = []\<rparr>\<rparr> :: unit error option)
     = Some (MultiError [New ''access token is missing'']) \<and>
   (EnrollResponse_Validate
      \<lparr>Action = ''created'', Success = True,
       Item = \<lparr>ID = ''a4937110'', Active = True, PolicyID = ''default'',
               EnrollItemResponse.Type = ''PERMANENT'',
               EnrolledAt = (), UserProvidedMetadata = (), LocalMetadata = (),
               Actions = [] :: unit list, AccessToken = ''ACCESS_TOKEN''\<rparr>\<rparr> :: unit error option)
     = None"
  using
    EnrollResponse_Validate_cases [where 'x = unit, of
      "\<lparr>Action = ''created'', Success = True,
       Item = \<lparr>ID = [], Active = True, PolicyID = ''default'', EnrollItemResponse.Type = [],
               EnrolledAt = (), UserProvidedMetadata = (), LocalMetadata = (),
               Actions = [] :: unit list, AccessToken = []\<rparr>\<rparr>"]
    EnrollResponse_Validate_cases [where 'x = unit, of
      "\<lparr>Action = ''created'', Success = True,
       Item = \<lparr>ID = ''a4937110'', Active = True, PolicyID = ''default'',
               EnrollItemResponse.Type = ''PERMANENT'',
               EnrolledAt = (), UserProvidedMetadata = (), LocalMetadata = (),
               Actions = [] :: unit list, AccessToken = []\<rparr>\<rparr>"]
    EnrollResponse_Validate_cases [where 'x = unit, of
      "\<lparr>Action = ''created'', Success = True,
       Item = \<lparr>ID = ''a4937110'', Active = True, PolicyID = ''default'',
               EnrollItemResponse.Type = ''PERMANENT'',
               EnrolledAt = (), UserProvidedMetadata = (), LocalMetadata = (),
               Actions = [] :: unit list, AccessToken = ''ACCESS_TOKEN''\<rparr>\<rparr>"]
  by simp

subsection \<open>Execute\<close>

lemma Execute_invalid:
  "(EnrollRequest_Validate r :: 'x error option) = Some err \<Longrightarrow>
   Execute extract decode encMap e r = (Return None (Some err), [])"
  by (simp add: Execute_def)

lemma json_Marshal_EnrollRequest_cong:
  assumes "EnrollRequest.Type r' = EnrollRequest.Type r" and "SharedID r' = SharedID r"
    and "Metadata r' = Metadata r"
  shows "json_Marshal_EnrollRequest encMap r' = json_Marshal_EnrollRequest encMap r"
  using assms by (simp add: json_Marshal_EnrollRequest_def split: sum.splits)

lemma Execute_sent:
  assumes "Sent call \<in> set (snd (Execute extract decode encMap e r))"
  shows "\<exists>b. json_Marshal_EnrollRequest encMap r = Inr b \<and>
           call = \<lparr>httpMethod = ''POST'', path = ''/api/fleet/agents/enroll'', params = None,
                    headers = [''kbn-fleet-enrollment-token'' \<mapsto> [EnrollmentToken r]],
                    body = b\<rparr>"
  using assms
  by (auto simp: Execute_def Let_def
           split: option.splits sum.splits prod.splits if_splits)

text \<open>
  A request of type \<open>PERMANENT\<close> with no shared identifier and empty metadata maps: the
  body carries the type, leaves \<open>sharedId\<close> out, and is the same for every token.
\<close>

lemma json_Marshal_EnrollRequest_example:
  "json_Marshal_EnrollRequest (\<lambda>m :: unit. Inr ''{}'')
      \<lparr>EnrollmentToken = tok, EnrollRequest.Type = ''PERMANENT'', SharedID = [],
       Metadata = \<lparr>Local = (), UserProvided = ()\<rparr>\<rparr>
   = Inr (''{'' @ [dquote] @ ''type'' @ [dquote] @ '':'' @ [dquote] @ ''PERMANENT'' @ [dquote] @
          '','' @ [dquote] @ ''metadata'' @ [dquote] @ '':{'' @ [dquote] @ ''local'' @ [dquote] @
          '':{},'' @ [dquote] @ ''userProvided'' @ [dquote] @ '':{}}}'')"
  by (simp add: json_Marshal_EnrollRequest_def json_Marshal_Metadata_def MarshalJSON_def
        reverseMapEnrollType_eq PermanentEnroll_def json_Marshal_string_PERMANENT json_key_def)

text \<open>
  C1. On a request that fails validation (an empty enrollment token or an empty type)
  \<open>Execute\<close> returns a \<open>nil\<close> response and the error \<open>Validate\<close> returned, and makes no
  call of \<open>Send\<close>: the call has no event.
\<close>

theorem Execute_invalid_request:
  assumes "EnrollmentToken r = [] \<or> EnrollRequest.Type r = []"
  shows "\<exists>err :: 'x error. EnrollRequest_Validate r = Some err \<and>
           Execute extract decode encMap e r = (Return None (Some err), [])"
proof -
  from assms have "(EnrollRequest_Validate r :: 'x error option) \<noteq> None"
    by (simp add: EnrollRequest_Validate_None)
  then obtain err :: "'x error" where v: "EnrollRequest_Validate r = Some err"
    by blast
  from v Execute_invalid [OF v, of "extract" "decode" "encMap" "e"] show ?thesis by blast
qed

theorem Execute_invalid_request_witness:
  "(EnrollmentToken \<lparr>EnrollmentToken = [], EnrollRequest.Type = ''PERMANENT'', SharedID = [],
       Metadata = \<lparr>Local = (), UserProvided = ()\<rparr>\<rparr> = [] \<or>
    EnrollRequest.Type \<lparr>EnrollmentToken = [], EnrollRequest.Type = ''PERMANENT'', SharedID = [],
       Metadata = \<lparr>Local = (), UserProvided = ()\<rparr>\<rparr> = []) \<and>
   Execute (\<lambda>b :: string. Some (Foreign b))
      (\<lambda>b. Inl (Foreign ''unreadable'') :: string error + (unit, unit, unit) EnrollResponse)
      (\<lambda>m. Inr ''{}'')
      (NewEnrollCmd \<lparr>Send = \<lambda>a. (Some \<lparr>StatusCode = 200, Body = ''{}''\<rparr>, None)\<rparr>)
      \<lparr>EnrollmentToken = [], EnrollRequest.Type = ''PERMANENT'', SharedID = [],
       Metadata = \<lparr>Local = (), UserProvided = ()\<rparr>\<rparr>
     = (Return None (Some (MultiError [New ''missing enrollment token''])), [])"
  using Execute_invalid_request [of
      "\<lparr>EnrollmentToken = [], EnrollRequest.Type = ''PERMANENT'', SharedID = [],
        Metadata = \<lparr>Local = (), UserProvided = ()\<rparr>\<rparr>"
      "\<lambda>b :: string. Some (Foreign b)"
      "\<lambda>b. Inl (Foreign ''unreadable'') :: string error + (unit, unit, unit) EnrollResponse"
      "\<lambda>m. Inr ''{}''"
      "NewEnrollCmd \<lparr>Send = \<lambda>a. (Some \<lparr>StatusCode = 200, Body = ''{}''\<rparr>, None)\<rparr>"]
  by (simp add: EnrollRequest_Validate_eq)

text \<open>
  C2. On a valid request, when the transport, called with the serialized request,
  returns a response and no error, and the status code of the response is not 200,
  \<open>Execute\<close> returns a \<open>nil\<close> response and as its error what \<open>extract\<close> returns on the
  body of the response.
\<close>

theorem Execute_non_OK_status:
  assumes "(EnrollRequest_Validate r :: 'x error option) = None"
    and "json_Marshal_EnrollRequest encMap r = Inr b"
    and "Send (client (e :: ('b, 'x) EnrollCmd))
           \<lparr>httpMethod = ''POST'', path = ''/api/fleet/agents/enroll'', params = None,
            headers = [''kbn-fleet-enrollment-token'' \<mapsto> [EnrollmentToken r]], body = b\<rparr>
         = (Some resp, None)"
    and "StatusCode resp \<noteq> 200"
  shows "fst (Execute extract decode encMap e r) = Return None (extract (Body resp))"
  using assms by (simp add: Execute_def Let_def http_StatusOK_def)

theorem Execute_non_OK_status_witness:
  "EnrollRequest_Validate \<lparr>EnrollmentToken = ''tok123'', EnrollRequest.Type = ''PERMANENT'',
       SharedID = [], Metadata = \<lparr>Local = (), UserProvided = ()\<rparr>\<rparr> = (None :: string error option) \<and>
   StatusCode \<lparr>StatusCode = 500, Body = ''boom''\<rparr> \<noteq> 200 \<and>
   fst (Execute (\<lambda>b :: string. Some (Foreign b))
      (\<lambda>b. Inl (Foreign ''unreadable'') :: string error + (unit, unit, unit) EnrollResponse)
      (\<lambda>m. Inr ''{}'')
      (NewEnrollCmd \<lparr>Send = \<lambda>a. (Some \<lparr>StatusCode = 500, Body = ''boom''\<rparr>, None)\<rparr>)
      \<lparr>EnrollmentToken = ''tok123'', EnrollRequest.Type = ''PERMANENT'', SharedID = [],
       Metadata = \<lparr>Local = (), UserProvided = ()\<rparr>\<rparr>)
     = Return None (Some (Foreign ''boom''))"
proof -
  let ?r = "\<lparr>EnrollmentToken = ''tok123'', EnrollRequest.Type = ''PERMANENT'', SharedID = [],
       Metadata = \<lparr>Local = (), UserProvided = ()\<rparr>\<rparr>"
  let ?e = "NewEnrollCmd \<lparr>Send = \<lambda>a. (Some \<lparr>StatusCode = 500, Body = ''boom''\<rparr>, None :: string error option)\<rparr>"
  have h1: "EnrollRequest_Validate ?r = (None :: string error option)"
    by (simp add: EnrollRequest_Validate_eq)
  note h2 = json_Marshal_EnrollRequest_example [of "''tok123''", where 'a = string]
  have h3: "Send (client ?e) a = (Some \<lparr>StatusCode = 500, Body = ''boom''\<rparr>, None)" for a
    by (simp add: NewEnrollCmd_def)
  have h4: "StatusCode \<lparr>StatusCode = 500, Body = ''boom''\<rparr> \<noteq> 200"
    by simp
  from Execute_non_OK_status [OF h1 h2 _ h4, of ?e "\<lambda>b :: string. Some (Foreign b)"
      "\<lambda>b. Inl (Foreign ''unreadable'') :: string error + (unit, unit, unit) EnrollResponse"]
    h1 h3 h4
  show ?thesis by simp
qed

text \<open>
  C3. The serialized body does not depend on the enrollment token: two requests that
  agree on \<open>Type\<close>, \<open>SharedID\<close> and \<open>Metadata\<close> serialize to the same result. Every call of
  \<open>Send\<close> that \<open>Execute\<close> makes carries the token as the value of the header
  \<open>kbn-fleet-enrollment-token\<close>, the only header, and as its body the serialization of
  any request that agrees with the given one on the other fields, such as one with
  another token.
\<close>

theorem credential_only_in_header:
  assumes "EnrollRequest.Type r' = EnrollRequest.Type r" and "SharedID r' = SharedID r"
    and "Metadata r' = Metadata r"
  shows "json_Marshal_EnrollRequest encMap r' = json_Marshal_EnrollRequest encMap r \<and>
         (\<forall>call. Sent call \<in> set (snd (Execute extract decode encMap e r)) \<longrightarrow>
            headers call = [''kbn-fleet-enrollment-token'' \<mapsto> [EnrollmentToken r]] \<and>
            json_Marshal_EnrollRequest encMap r' = Inr (body call) \<and>
            httpMethod call = ''POST'' \<and> path call = ''/api/fleet/agents/enroll'' \<and>
            params call = None)"
proof (intro conjI allI impI)
  show eq: "json_Marshal_EnrollRequest encMap r' = json_Marshal_EnrollRequest encMap r"
    using assms by (rule json_Marshal_EnrollRequest_cong)
  fix call
  assume "Sent call \<in> set (snd (Execute extract decode encMap e r))"
  then obtain b where b: "json_Marshal_EnrollRequest encMap r = Inr b"
    and c: "call = \<lparr>httpMethod = ''POST'', path = ''/api/fleet/agents/enroll'', params = None,
                    headers = [''kbn-fleet-enrollment-token'' \<mapsto> [EnrollmentToken r]],
                    body = b\<rparr>"
    using Execute_sent by blast
  show "headers call = [''kbn-fleet-enrollment-token'' \<mapsto> [EnrollmentToken r]]"
    by (simp add: c)
  show "json_Marshal_EnrollRequest encMap r' = Inr (body call)"
    by (simp add: eq b c)
  show "httpMethod call = ''POST''" by (simp add: c)
  show "path call = ''/api/fleet/agents/enroll''" by (simp add: c)
  show "params call = None" by (simp add: c)
qed

theorem credential_only_in_header_witness:
  "json_Marshal_EnrollRequest (\<lambda>m :: unit. Inr ''{}'' :: string error + string)
      \<lparr>EnrollmentToken = ''other'', EnrollRequest.Type = ''PERMANENT'', SharedID = [],
       Metadata = \<lparr>Local = (), UserProvided = ()\<rparr>\<rparr>
   = json_Marshal_EnrollRequest (\<lambda>m. Inr ''{}'')
      \<lparr>EnrollmentToken = ''tok123'', EnrollRequest.Type = ''PERMANENT'', SharedID = [],
       Metadata = \<lparr>Local = (), UserProvided = ()\<rparr>\<rparr> \<and>
   (\<exists>call. snd (Execute (\<lambda>b :: string. Some (Foreign b))
        (\<lambda>b. Inl (Foreign ''unreadable'') :: string error + (unit, unit, unit) EnrollResponse)
        (\<lambda>m. Inr ''{}'')
        (NewEnrollCmd \<lparr>Send = \<lambda>a. (Some \<lparr>StatusCode = 500, Body = ''boom''\<rparr>, None)\<rparr>)
        \<lparr>EnrollmentToken = ''tok123'', EnrollRequest.Type = ''PERMANENT'', SharedID = [],
         Metadata = \<lparr>Local = (), UserProvided = ()\<rparr>\<rparr>) = [Sent call, Closed ''boom''] \<and>
      headers call = [''kbn-fleet-enrollment-token'' \<mapsto> [''tok123'']] \<and>
      json_Marshal_EnrollRequest (\<lambda>m :: unit. Inr ''{}'' :: string error + string)
        \<lparr>EnrollmentToken = ''other'', EnrollRequest.Type = ''PERMANENT'', SharedID = [],
         Metadata = \<lparr>Local = (), UserProvided = ()\<rparr>\<rparr> = Inr (body call))"
proof -
  let ?r = "\<lparr>EnrollmentToken = ''tok123'', EnrollRequest.Type = ''PERMANENT'', SharedID = [],
       Metadata = \<lparr>Local = (), UserProvided = ()\<rparr>\<rparr>"
  let ?r' = "\<lparr>EnrollmentToken = ''other'', EnrollRequest.Type = ''PERMANENT'', SharedID = [],
       Metadata = \<lparr>Local = (), UserProvided = ()\<rparr>\<rparr>"
  let ?e = "NewEnrollCmd \<lparr>Send = \<lambda>a. (Some \<lparr>StatusCode = 500, Body = ''boom''\<rparr>,
                None :: string error option)\<rparr>"
  let ?x = "\<lambda>b :: string. Some (Foreign b)"
  let ?d = "\<lambda>b :: string. Inl (Foreign ''unreadable'') :: string error + (unit, unit, unit) EnrollResponse"
  let ?m = "\<lambda>m :: unit. Inr ''{}'' :: string error + string"
  have h1: "EnrollRequest.Type ?r' = EnrollRequest.Type ?r" by simp
  have h2: "SharedID ?r' = SharedID ?r" by simp
  have h3: "Metadata ?r' = Metadata ?r" by simp
  note t = credential_only_in_header [OF h1 h2 h3, of ?m ?x ?d ?e]
  obtain b where b: "json_Marshal_EnrollRequest ?m ?r = Inr b"
    using json_Marshal_EnrollRequest_example [of "''tok123''", where 'a = string] by simp
  let ?call = "\<lparr>httpMethod = ''POST'', path = ''/api/fleet/agents/enroll'', params = None,
      headers = [''kbn-fleet-enrollment-token'' \<mapsto> [''tok123'']], body = b\<rparr>"
  have ev: "snd (Execute ?x ?d ?m ?e ?r) = [Sent ?call, Closed ''boom'']"
    using b by (simp add: Execute_def Let_def EnrollRequest_Validate_eq NewEnrollCmd_def
        http_StatusOK_def)
  then have mem: "Sent ?call \<in> set (snd (Execute ?x ?d ?m ?e ?r))" by simp
  note t2 = t [THEN conjunct2, THEN spec, THEN mp, OF mem]
  show ?thesis
  proof (intro conjI exI [of _ ?call])
    show "json_Marshal_EnrollRequest ?m ?r' = json_Marshal_EnrollRequest ?m ?r"
      by (rule t [THEN conjunct1])
    show "snd (Execute ?x ?d ?m ?e ?r) = [Sent ?call, Closed ''boom'']"
      by (rule ev)
    show "headers ?call = [''kbn-fleet-enrollment-token'' \<mapsto> [''tok123'']]"
      by simp
    show "json_Marshal_EnrollRequest ?m ?r' = Inr (body ?call)"
      by (rule t2 [THEN conjunct2, THEN conjunct1])
  qed
qed

end
